theory Spec2Isabelle
  imports Main "HOL-Library.Sublist" "HOL-Library.AList"
begin

section \<open>Data model of \<open>secure_upload_backend/main.py\<close>\<close>

text \<open>
  Strings are lists of characters; file contents (\<open>bytes\<close>) are lists of characters as well.
  Points in time (\<open>datetime\<close>) and durations (\<open>timedelta\<close>) are integers counting seconds;
  the clock \<open>datetime.utcnow()\<close> is an explicit argument \<open>now\<close>.
\<close>

type_synonym bytes = "char list"

text \<open>An entry of \<open>fake_users_db\<close>: the dict \<open>{'username': ..., 'hashed_password': ...}\<close>.\<close>

record user =
  username :: string
  hashed_password :: string

text \<open>\<open>fake_users_db\<close>: a dict from username to entry.\<close>

type_synonym users_db = "string \<rightharpoonup> user"

text \<open>The request models \<open>UserCreate\<close> and \<open>OAuth2PasswordRequestForm\<close>.\<close>

datatype UserCreate = UserCreate (new_username: string) (new_password: string)

datatype OAuth2PasswordRequestForm =
  OAuth2PasswordRequestForm (form_username: string) (form_password: string)

text \<open>
  What a handler can raise: an \<open>HTTPException\<close> with status code, detail and optional headers,
  or an exception of a call it makes, which no handler catches: the \<open>OSError\<close> of a file
  operation, or a \<open>ValueError\<close> (of \<open>open\<close> on a path with a null character, or of the
  password library on a secret it refuses).
\<close>

datatype error =
  HTTPException nat string "(string \<times> string) list option"
  | OSError
  | ValueError

text \<open>
  \<open>pwd_context\<close> (passlib's \<open>CryptContext\<close>) is a library object outside the sources. It is
  taken as a parameter: \<open>pwd_hash\<close> is \<open>pwd_context.hash\<close>, with the salt it draws made an
  explicit first argument, and \<open>pwd_verify\<close> is \<open>pwd_context.verify\<close>, which returns a
  truth value or raises (\<open>None\<close>): the library refuses a secret longer than its limit.
  \<open>pwd_hash\<close> is taken on the secrets that the library accepts.
\<close>

record crypt_context =
  pwd_hash :: "string \<Rightarrow> string \<Rightarrow> string"
  pwd_verify :: "string \<Rightarrow> string \<Rightarrow> bool option"

definition verify_password :: "crypt_context \<Rightarrow> string \<Rightarrow> string \<Rightarrow> bool option" where
  "verify_password ctx plain_password hashed = pwd_verify ctx plain_password hashed"

definition get_password_hash :: "crypt_context \<Rightarrow> string \<Rightarrow> string \<Rightarrow> string" where
  "get_password_hash ctx salt password = pwd_hash ctx salt password"

subsection \<open>Tokens\<close>

text \<open>The payload dict of a token: the claims \<open>'sub'\<close> and \<open>'exp'\<close>, each present or not.\<close>

record payload =
  sub :: "string option"
  exp :: "int option"

text \<open>
  Modelled from the spec: \<open>jwt.encode\<close> and \<open>jwt.decode\<close> belong to the jose library, which is
  not part of the sources. A token is either a string that does not parse or a payload
  together with the key that signed it; following section 4.2 of the specification,
  decoding fails with \<open>Malformed\<close> if the token cannot be parsed, with \<open>InvalidSignature\<close> if
  the signature does not match the key, and with \<open>Expired\<close> if \<open>now \<ge> expires_at\<close>.
\<close>

datatype jwt = Unparsable string | Signed payload string

datatype JWTError = Malformed | InvalidSignature | Expired

definition jwt_encode :: "payload \<Rightarrow> string \<Rightarrow> jwt" where
  "jwt_encode claims key = Signed claims key"

definition jwt_decode :: "jwt \<Rightarrow> string \<Rightarrow> int \<Rightarrow> JWTError + payload" where
  "jwt_decode token key now =
     (case token of
        Unparsable s \<Rightarrow> Inl Malformed
      | Signed claims k \<Rightarrow>
          if k \<noteq> key then Inl InvalidSignature
          else (case exp claims of
                  None \<Rightarrow> Inr claims
                | Some e \<Rightarrow> if now \<ge> e then Inl Expired else Inr claims))"

definition ACCESS_TOKEN_EXPIRE_MINUTES :: int where
  "ACCESS_TOKEN_EXPIRE_MINUTES = 30"

text \<open>\<open>timedelta(minutes=m)\<close>, in seconds.\<close>

definition minutes :: "int \<Rightarrow> int" where
  "minutes m = m * 60"

text \<open>
  \<open>create_access_token(data, expires_delta)\<close>, with the signing key and the clock as
  arguments. The test \<open>if expires_delta:\<close> is one of truthiness: \<open>None\<close> and the zero
  \<open>timedelta\<close> both take the \<open>else\<close> branch.
\<close>

definition create_access_token :: "string \<Rightarrow> int \<Rightarrow> payload \<Rightarrow> int option \<Rightarrow> jwt" where
  "create_access_token key now data expires_delta =
     (let expire =
        (case expires_delta of
           Some d \<Rightarrow> if d \<noteq> 0 then now + d else now + minutes ACCESS_TOKEN_EXPIRE_MINUTES
         | None \<Rightarrow> now + minutes ACCESS_TOKEN_EXPIRE_MINUTES)
      in jwt_encode (data\<lparr>exp := Some expire\<rparr>) key)"

definition credentials_exception :: error where
  "credentials_exception =
     HTTPException 401 ''Could not validate credentials'' (Some [(''WWW-Authenticate'', ''Bearer'')])"

text \<open>
  The \<open>try\<close> block of \<open>get_current_user\<close>: decode the token and read its subject. Every
  \<open>JWTError\<close> and a missing \<open>'sub'\<close> raise the same \<open>credentials_exception\<close>.
\<close>

definition token_subject :: "string \<Rightarrow> int \<Rightarrow> jwt \<Rightarrow> error + string" where
  "token_subject key now token =
     (case jwt_decode token key now of
        Inl e \<Rightarrow> Inl credentials_exception
      | Inr claims \<Rightarrow>
          (case sub claims of
             None \<Rightarrow> Inl credentials_exception
           | Some name \<Rightarrow> Inr name))"

definition get_current_user :: "string \<Rightarrow> users_db \<Rightarrow> int \<Rightarrow> jwt \<Rightarrow> error + user" where
  "get_current_user key db now token =
     (case token_subject key now token of
        Inl e \<Rightarrow> Inl e
      | Inr name \<Rightarrow>
          (case db name of
             None \<Rightarrow> Inl credentials_exception
           | Some u \<Rightarrow> Inr u))"

subsection \<open>Registration and login\<close>

text \<open>
  \<open>register\<close> returns its outcome together with the user store it leaves behind. On success
  the outcome is the status code of the route and the body.
\<close>

definition register ::
  "crypt_context \<Rightarrow> string \<Rightarrow> users_db \<Rightarrow> UserCreate
     \<Rightarrow> (error + nat \<times> (string \<times> string) list) \<times> users_db" where
  "register ctx salt db u =
     (if new_username u \<in> dom db
      then (Inl (HTTPException 400 ''Username already registered'' None), db)
      else
        (let hashed = get_password_hash ctx salt (new_password u)
         in (Inr (201, [(''message'', ''User registered successfully'')]),
             db(new_username u \<mapsto> \<lparr>username = new_username u, hashed_password = hashed\<rparr>))))"

record Token =
  access_token :: jwt
  token_type :: string

text \<open>
  The one exception that \<open>login\<close> raises itself. \<open>verify_password\<close> is called for a stored
  user only, outside any \<open>try\<close>: what it raises leaves \<open>login\<close> as it is.
\<close>

definition invalid_login :: error where
  "invalid_login =
     HTTPException 401 ''Incorrect username or password'' (Some [(''WWW-Authenticate'', ''Bearer'')])"

definition login ::
  "crypt_context \<Rightarrow> string \<Rightarrow> users_db \<Rightarrow> int \<Rightarrow> OAuth2PasswordRequestForm \<Rightarrow> error + Token" where
  "login ctx key db now form_data =
     (case db (form_username form_data) of
        None \<Rightarrow> Inl invalid_login
      | Some u \<Rightarrow>
          (case verify_password ctx (form_password form_data) (hashed_password u) of
             None \<Rightarrow> Inl ValueError
           | Some verified \<Rightarrow>
               if \<not> verified
               then Inl invalid_login
               else Inr \<lparr>access_token =
                           create_access_token key now \<lparr>sub = Some (username u), exp = None\<rparr> None,
                         token_type = ''bearer''\<rparr>))"

subsection \<open>The file system\<close>

text \<open>
  The calls \<open>open\<close>, \<open>os.listdir\<close>, \<open>os.path.exists\<close>, \<open>os.path.getsize\<close> act on the
  file system of the host. It is modelled as a tree without symbolic links: a location is
  the list of names leading to it from the root, a directory is recorded with the size
  that \<open>stat\<close> reports for it, a regular file with its content. The root is the location
  \<open>[]\<close> and is listed among the directories. The process may read and write wherever a
  path leads: permissions and the capacity of the disk are not modelled.
\<close>

type_synonym location = "string list"

record filesystem =
  dirs :: "(location \<times> nat) list"
  files :: "(location \<times> bytes) list"

definition is_dir :: "filesystem \<Rightarrow> location \<Rightarrow> bool" where
  "is_dir fs p = (map_of (dirs fs) p \<noteq> None)"

definition is_file :: "filesystem \<Rightarrow> location \<Rightarrow> bool" where
  "is_file fs p = (map_of (files fs) p \<noteq> None)"

text \<open>\<open>s.split('/')\<close>.\<close>

fun split_slash :: "string \<Rightarrow> string list" where
  "split_slash [] = [[]]"
| "split_slash (c # cs) =
     (if c = CHR ''/'' then [] # split_slash cs
      else (case split_slash cs of
              [] \<Rightarrow> [[c]]
            | w # ws \<Rightarrow> (c # w) # ws))"

text \<open>
  Path resolution from the directory \<open>cur\<close>: empty components and \<open>.\<close> stay, \<open>..\<close> moves
  to the parent, a name that is not the last component must be an existing directory.
  The last name need not exist.
\<close>

fun walk :: "filesystem \<Rightarrow> location \<Rightarrow> string list \<Rightarrow> location option" where
  "walk fs cur [] = Some cur"
| "walk fs cur (c # cs) =
     (if c = [] \<or> c = ''.'' then walk fs cur cs
      else if c = ''..'' then walk fs (butlast cur) cs
      else if cs = [] then Some (cur @ [c])
      else if is_dir fs (cur @ [c]) then walk fs (cur @ [c]) cs
      else None)"

text \<open>Every path the program builds is absolute, so resolution starts at the root.\<close>

definition os_resolve :: "filesystem \<Rightarrow> string \<Rightarrow> location option" where
  "os_resolve fs path = walk fs [] (split_slash path)"

text \<open>\<open>os.path.join\<close> of two POSIX paths.\<close>

definition os_path_join :: "string \<Rightarrow> string \<Rightarrow> string" where
  "os_path_join a b =
     (if b \<noteq> [] \<and> hd b = CHR ''/'' then b
      else if a = [] \<or> last a = CHR ''/'' then a @ b
      else a @ ''/'' @ b)"

definition os_path_exists :: "filesystem \<Rightarrow> string \<Rightarrow> bool" where
  "os_path_exists fs path =
     (case os_resolve fs path of
        None \<Rightarrow> False
      | Some p \<Rightarrow> is_dir fs p \<or> is_file fs p)"

definition os_listdir :: "filesystem \<Rightarrow> string \<Rightarrow> string list option" where
  "os_listdir fs path =
     (case os_resolve fs path of
        None \<Rightarrow> None
      | Some p \<Rightarrow>
          if is_dir fs p
          then Some (map last (filter (\<lambda>q. q \<noteq> [] \<and> butlast q = p)
                                      (map fst (files fs) @ map fst (dirs fs))))
          else None)"

definition os_path_getsize :: "filesystem \<Rightarrow> string \<Rightarrow> nat option" where
  "os_path_getsize fs path =
     (case os_resolve fs path of
        None \<Rightarrow> None
      | Some p \<Rightarrow>
          (case map_of (files fs) p of
             Some content \<Rightarrow> Some (length content)
           | None \<Rightarrow> map_of (dirs fs) p))"

text \<open>The limits of Linux on the length of one name and of a whole path, in bytes.\<close>

definition NAME_MAX :: nat where
  "NAME_MAX = 255"

definition PATH_MAX :: nat where
  "PATH_MAX = 4096"

text \<open>
  \<open>open(path, 'wb+')\<close> followed by writing \<open>content\<close>: the file is created or truncated.
  A path with a null character raises \<open>ValueError\<close> before the system is asked. Opening
  fails with an \<open>OSError\<close> if the path or one of its names is too long, if the path does
  not resolve or if it names a directory.
\<close>

definition open_wb :: "filesystem \<Rightarrow> string \<Rightarrow> bytes \<Rightarrow> error + filesystem" where
  "open_wb fs path content =
     (if CHR 0x00 \<in> set path then Inl ValueError
      else if PATH_MAX \<le> length path \<or> list_ex (\<lambda>c. NAME_MAX < length c) (split_slash path)
      then Inl OSError
      else (case os_resolve fs path of
              None \<Rightarrow> Inl OSError
            | Some p \<Rightarrow>
                if is_dir fs p then Inl OSError
                else Inr (fs\<lparr>files := AList.update p content (files fs)\<rparr>)))"

subsection \<open>Upload and listing\<close>

text \<open>
  The directory of \<open>main.py\<close> depends on the installation; \<open>/app\<close> stands for it.
\<close>

definition module_dir :: string where
  "module_dir = ''/app''"

definition UPLOAD_DIR :: string where
  "UPLOAD_DIR = os_path_join module_dir ''uploaded_files''"

text \<open>An \<open>UploadFile\<close>: its \<open>filename\<close> and the bytes read from its \<open>file\<close>.\<close>

datatype UploadFile = UploadFile (filename: string) (file_content: bytes)

text \<open>The name under which \<open>upload_file\<close> stores a file: \<open>f"{username}_{filename}"\<close>.\<close>

definition physical_key :: "string \<Rightarrow> string \<Rightarrow> string" where
  "physical_key owner logical_name = owner @ ''_'' @ logical_name"

definition upload_file ::
  "filesystem \<Rightarrow> UploadFile \<Rightarrow> user \<Rightarrow> (error + (string \<times> string) list) \<times> filesystem" where
  "upload_file fs f current_user =
     (let file_location =
            os_path_join UPLOAD_DIR (physical_key (username current_user) (filename f))
      in case open_wb fs file_location (file_content f) of
           Inl e \<Rightarrow> (Inl e, fs)
         | Inr fs' \<Rightarrow>
             (Inr [(''info'', ''File '' @ [CHR 0x27] @ filename f @ [CHR 0x27] @ '' saved.''),
                   (''user'', username current_user)],
              fs'))"

record file_entry =
  name :: string
  size_bytes :: nat

text \<open>The loop of \<open>list_files\<close> over the names of the upload directory.\<close>

fun list_loop ::
  "filesystem \<Rightarrow> string \<Rightarrow> string list \<Rightarrow> file_entry list \<Rightarrow> error + file_entry list" where
  "list_loop fs uname [] acc = Inr acc"
| "list_loop fs uname (fname # rest) acc =
     (if prefix (uname @ ''_'') fname
      then (case os_path_getsize fs (os_path_join UPLOAD_DIR fname) of
              None \<Rightarrow> Inl OSError
            | Some file_size \<Rightarrow>
                list_loop fs uname rest
                  (acc @ [\<lparr>name = drop (length uname + 1) fname, size_bytes = file_size\<rparr>]))
      else list_loop fs uname rest acc)"

definition list_files :: "filesystem \<Rightarrow> user \<Rightarrow> error + file_entry list" where
  "list_files fs current_user =
     (if os_path_exists fs UPLOAD_DIR
      then (case os_listdir fs UPLOAD_DIR of
              None \<Rightarrow> Inl OSError
            | Some names \<Rightarrow> list_loop fs (username current_user) names [])
      else Inr [])"

section \<open>Concrete states\<close>

text \<open>
  The file system after start-up (\<open>os.makedirs(UPLOAD_DIR, exist_ok=True)\<close>): the module
  directory with \<open>main.py\<close> and an empty upload directory.
\<close>

definition fresh_fs :: filesystem where
  "fresh_fs =
     \<lparr>dirs = [([], 4096), ([''app''], 4096), ([''app'', ''uploaded_files''], 4096)],
      files = [([''app'', ''main.py''], ''import os'')]\<rparr>"


text \<open>A password context for examples: the hash is the salt, a separator and the password.\<close>

definition plain_context :: crypt_context where
  "plain_context =
     \<lparr>pwd_hash = (\<lambda>salt password. salt @ ''$'' @ password),
      pwd_verify =
        (\<lambda>password h. Some (drop (length h - Suc (length password)) h = ''$'' @ password))\<rparr>"

text \<open>
  The same context with the limit of passlib on the size of a secret: \<open>verify\<close> raises on a
  password of more than 4096 characters.
\<close>

definition MAX_PASSWORD_SIZE :: nat where
  "MAX_PASSWORD_SIZE = 4096"

definition limited_context :: crypt_context where
  "limited_context =
     \<lparr>pwd_hash = pwd_hash plain_context,
      pwd_verify =
        (\<lambda>password h. if MAX_PASSWORD_SIZE < length password then None
                        else pwd_verify plain_context password h)\<rparr>"

definition user_a :: user where
  "user_a = \<lparr>username = ''a'', hashed_password = ''s$pw''\<rparr>"

definition user_a_b :: user where
  "user_a_b = \<lparr>username = ''a_b'', hashed_password = ''s$pw''\<rparr>"

definition alice_db :: users_db where
  "alice_db = [''alice'' \<mapsto> \<lparr>username = ''alice'', hashed_password = ''s$pw''\<rparr>]"

section \<open>Registration\<close>

lemma register_fst:
  "fst (register ctx salt db u) =
     (if new_username u \<in> dom db
      then Inl (HTTPException 400 ''Username already registered'' None)
      else Inr (201, [(''message'', ''User registered successfully'')]))"
  by (simp add: register_def Let_def)

lemma register_snd:
  "snd (register ctx salt db u) =
     (if new_username u \<in> dom db then db
      else db(new_username u \<mapsto>
             \<lparr>username = new_username u, hashed_password = pwd_hash ctx salt (new_password u)\<rparr>))"
  by (simp add: register_def Let_def get_password_hash_def)

lemma alice_db_alice:
  "alice_db ''alice'' = Some \<lparr>username = ''alice'', hashed_password = ''s$pw''\<rparr>"
  by (simp add: alice_db_def)

text \<open>
  C8: for every username already present in the user store and every password,
  \<open>register\<close> fails with the 400 exception "Username already registered"; and whenever
  \<open>register\<close> succeeds, the username was absent from the store.
\<close>

theorem register_username_taken:
  "(u \<in> dom db \<longrightarrow>
      fst (register ctx salt db (UserCreate u p))
        = Inl (HTTPException 400 ''Username already registered'' None))
   \<and> ((\<exists>body. fst (register ctx salt db (UserCreate u p)) = Inr body) \<longrightarrow> u \<notin> dom db)"
  by (simp add: register_fst)

theorem register_username_taken_witness:
  "''alice'' \<in> dom alice_db
   \<and> fst (register plain_context ''t'' alice_db (UserCreate ''alice'' ''other''))
        = Inl (HTTPException 400 ''Username already registered'' None)
   \<and> (\<exists>body. fst (register plain_context ''t'' Map.empty (UserCreate ''alice'' ''pw'')) = Inr body)
   \<and> ''alice'' \<notin> dom (Map.empty :: users_db)"
proof -
  have taken: "''alice'' \<in> dom alice_db"
    by (simp add: alice_db_def)
  have ok: "\<exists>body. fst (register plain_context ''t'' Map.empty (UserCreate ''alice'' ''pw'')) = Inr body"
    by (simp add: register_fst)
  from taken ok
    register_username_taken [of "''alice''" alice_db plain_context "''t''" "''other''"]
    register_username_taken [of "''alice''" Map.empty plain_context "''t''" "''pw''"]
  show ?thesis by blast
qed

text \<open>
  C10: when \<open>register\<close> fails because the username is already taken, the user store it
  leaves behind is the store it was given: no record is modified and none is inserted.
\<close>

theorem register_taken_store_unchanged:
  assumes "fst (register ctx salt db (UserCreate u p))
             = Inl (HTTPException 400 ''Username already registered'' None)"
  shows "snd (register ctx salt db (UserCreate u p)) = db"
  using assms by (simp add: register_fst register_snd split: if_splits)

theorem register_taken_store_unchanged_witness:
  "fst (register plain_context ''t'' alice_db (UserCreate ''alice'' ''other''))
     = Inl (HTTPException 400 ''Username already registered'' None)
   \<and> snd (register plain_context ''t'' alice_db (UserCreate ''alice'' ''other'')) = alice_db
   \<and> snd (register plain_context ''t'' alice_db (UserCreate ''alice'' ''other'')) ''alice''
     = Some \<lparr>username = ''alice'', hashed_password = ''s$pw''\<rparr>"
proof -
  have h: "fst (register plain_context ''t'' alice_db (UserCreate ''alice'' ''other''))
     = Inl (HTTPException 400 ''Username already registered'' None)"
    by (simp add: register_fst alice_db_def)
  from register_taken_store_unchanged [OF h] h show ?thesis
    by (simp add: alice_db_alice)
qed




section \<open>Login and request authentication\<close>

lemma token_subject_issued:
  assumes "now < t + minutes ACCESS_TOKEN_EXPIRE_MINUTES"
  shows "token_subject key now (create_access_token key t \<lparr>sub = Some s, exp = None\<rparr> None) = Inr s"
  using assms
  by (simp add: token_subject_def create_access_token_def jwt_encode_def jwt_decode_def)

text \<open>
  Where the password library returns \<open>False\<close> for the wrong password, a login with a
  username that is not in the store and a login with a stored username raise the same
  exception: status 401, detail "Incorrect username or password", header
  \<open>WWW-Authenticate: Bearer\<close>.
\<close>

lemma login_refusals_identical:
  assumes "db u1 = None"
    and "db u2 = Some r"
    and "verify_password ctx p2 (hashed_password r) = Some False"
  shows "login ctx key db t1 (OAuth2PasswordRequestForm u1 p1)
           = Inl (HTTPException 401 ''Incorrect username or password''
                    (Some [(''WWW-Authenticate'', ''Bearer'')]))
         \<and> login ctx key db t2 (OAuth2PasswordRequestForm u2 p2)
           = login ctx key db t1 (OAuth2PasswordRequestForm u1 p1)"
  using assms by (simp add: login_def invalid_login_def)

text \<open>
  C6 at a wrong password of 4097 characters, with a password library that refuses secrets
  of more than 4096 characters as passlib does: for the unknown user \<open>bob\<close> the login is
  answered with the 401 exception, for the stored user \<open>alice\<close> the same password makes
  \<open>verify\<close> raise, and the \<open>ValueError\<close> leaves \<open>login\<close> unhandled. The two responses differ.
\<close>

theorem login_long_password_differs:
  "alice_db ''bob'' = None
   \<and> alice_db ''alice'' = Some \<lparr>username = ''alice'', hashed_password = ''s$pw''\<rparr>
   \<and> replicate 4097 (CHR ''x'') \<noteq> ''pw''
   \<and> login limited_context ''k'' alice_db 0
        (OAuth2PasswordRequestForm ''bob'' (replicate 4097 (CHR ''x'')))
       = Inl (HTTPException 401 ''Incorrect username or password''
                (Some [(''WWW-Authenticate'', ''Bearer'')]))
   \<and> login limited_context ''k'' alice_db 0
        (OAuth2PasswordRequestForm ''alice'' (replicate 4097 (CHR ''x'')))
       = Inl ValueError"
proof -
  have long: "length (replicate 4097 (CHR ''x'')) = 4097"
    by simp
  have differs: "replicate 4097 (CHR ''x'') \<noteq> ''pw''"
  proof
    assume "replicate 4097 (CHR ''x'') = ''pw''"
    then have "length (replicate 4097 (CHR ''x'')) = length ''pw''"
      by (rule arg_cong)
    then show False by simp
  qed
  have raises: "verify_password limited_context (replicate 4097 (CHR ''x'')) ''s$pw'' = None"
    by (simp add: verify_password_def limited_context_def MAX_PASSWORD_SIZE_def)
  have absent: "alice_db ''bob'' = None"
    by (simp add: alice_db_def)
  have unknown: "login limited_context ''k'' alice_db 0
        (OAuth2PasswordRequestForm ''bob'' (replicate 4097 (CHR ''x'')))
       = Inl (HTTPException 401 ''Incorrect username or password''
                (Some [(''WWW-Authenticate'', ''Bearer'')]))"
    by (simp add: login_def absent invalid_login_def)
  have known: "login limited_context ''k'' alice_db 0
        (OAuth2PasswordRequestForm ''alice'' (replicate 4097 (CHR ''x'')))
       = Inl ValueError"
    by (simp add: login_def alice_db_alice raises)
  from absent alice_db_alice differs unknown known show ?thesis
    by blast
qed

text \<open>
  C9: for a token that decodes (signature and expiry valid) to a payload with subject
  \<open>s\<close>: if \<open>s\<close> is not in the user store, \<open>get_current_user\<close> fails with the 401
  \<open>credentials_exception\<close>; and whenever it succeeds, the identity it returns is the record
  stored under \<open>s\<close>.
\<close>

theorem get_current_user_resolves_subject:
  assumes "jwt_decode token key now = Inr claims"
    and "sub claims = Some s"
  shows "(db s = None \<longrightarrow> get_current_user key db now token = Inl credentials_exception)
         \<and> (\<forall>r. get_current_user key db now token = Inr r \<longrightarrow> db s = Some r)"
  using assms by (auto simp: get_current_user_def token_subject_def split: option.splits)

theorem get_current_user_resolves_subject_witness:
  "jwt_decode (Signed \<lparr>sub = Some ''bob'', exp = Some 100\<rparr> ''k'') ''k'' 5
     = Inr \<lparr>sub = Some ''bob'', exp = Some 100\<rparr>
   \<and> alice_db ''bob'' = None
   \<and> get_current_user ''k'' alice_db 5 (Signed \<lparr>sub = Some ''bob'', exp = Some 100\<rparr> ''k'')
       = Inl credentials_exception
   \<and> jwt_decode (Signed \<lparr>sub = Some ''alice'', exp = Some 100\<rparr> ''k'') ''k'' 5
     = Inr \<lparr>sub = Some ''alice'', exp = Some 100\<rparr>
   \<and> get_current_user ''k'' alice_db 5 (Signed \<lparr>sub = Some ''alice'', exp = Some 100\<rparr> ''k'')
       = Inr \<lparr>username = ''alice'', hashed_password = ''s$pw''\<rparr>
   \<and> alice_db ''alice'' = Some \<lparr>username = ''alice'', hashed_password = ''s$pw''\<rparr>"
proof -
  have d1: "jwt_decode (Signed \<lparr>sub = Some ''bob'', exp = Some 100\<rparr> ''k'') ''k'' 5
     = Inr \<lparr>sub = Some ''bob'', exp = Some 100\<rparr>"
    by (simp add: jwt_decode_def)
  have d2: "jwt_decode (Signed \<lparr>sub = Some ''alice'', exp = Some 100\<rparr> ''k'') ''k'' 5
     = Inr \<lparr>sub = Some ''alice'', exp = Some 100\<rparr>"
    by (simp add: jwt_decode_def)
  have absent: "alice_db ''bob'' = None"
    by (simp add: alice_db_def)
  have ok: "get_current_user ''k'' alice_db 5 (Signed \<lparr>sub = Some ''alice'', exp = Some 100\<rparr> ''k'')
       = Inr \<lparr>username = ''alice'', hashed_password = ''s$pw''\<rparr>"
    by (simp add: get_current_user_def token_subject_def d2 alice_db_alice)
  have s1: "sub \<lparr>sub = Some ''bob'', exp = Some 100\<rparr> = Some ''bob''"
    by simp
  have s2: "sub \<lparr>sub = Some ''alice'', exp = Some 100\<rparr> = Some ''alice''"
    by simp
  from get_current_user_resolves_subject [OF d1 s1, of alice_db]
    get_current_user_resolves_subject [OF d2 s2, of alice_db]
    d1 d2 absent ok
  show ?thesis by blast
qed

text \<open>
  C5: for every username \<open>u\<close> not yet registered and every password \<open>p\<close> that the password
  context verifies against its own hash, \<open>register\<close> succeeds, a following \<open>login\<close> with the
  same credentials at time \<open>t\<close> returns a bearer token, and before that token expires its
  verification yields \<open>u\<close> and \<open>get_current_user\<close> returns the record of \<open>u\<close>.
\<close>

theorem register_then_login:
  assumes "u \<notin> dom db"
    and "pwd_verify ctx p (pwd_hash ctx salt p) = Some True"
    and "now < t + minutes ACCESS_TOKEN_EXPIRE_MINUTES"
  shows "fst (register ctx salt db (UserCreate u p))
           = Inr (201, [(''message'', ''User registered successfully'')])
         \<and> (\<exists>tok. login ctx key (snd (register ctx salt db (UserCreate u p))) t
                     (OAuth2PasswordRequestForm u p)
                   = Inr \<lparr>access_token = tok, token_type = ''bearer''\<rparr>
                \<and> token_subject key now tok = Inr u
                \<and> get_current_user key (snd (register ctx salt db (UserCreate u p))) now tok
                   = Inr \<lparr>username = u, hashed_password = pwd_hash ctx salt p\<rparr>)"
proof -
  let ?db = "snd (register ctx salt db (UserCreate u p))"
  let ?tok = "create_access_token key t \<lparr>sub = Some u, exp = None\<rparr> None"
  have stored: "?db u = Some \<lparr>username = u, hashed_password = pwd_hash ctx salt p\<rparr>"
    using assms(1) by (simp add: register_snd)
  have "login ctx key ?db t (OAuth2PasswordRequestForm u p)
          = Inr \<lparr>access_token = ?tok, token_type = ''bearer''\<rparr>"
    using assms(2) by (simp add: login_def stored verify_password_def)
  moreover have subj: "token_subject key now ?tok = Inr u"
    using assms(3) by (rule token_subject_issued)
  moreover have "get_current_user key ?db now ?tok
                   = Inr \<lparr>username = u, hashed_password = pwd_hash ctx salt p\<rparr>"
    by (simp add: get_current_user_def subj stored)
  moreover have "fst (register ctx salt db (UserCreate u p))
           = Inr (201, [(''message'', ''User registered successfully'')])"
    using assms(1) by (simp add: register_fst)
  ultimately show ?thesis by blast
qed

theorem register_then_login_witness:
  "''bob'' \<notin> dom alice_db
   \<and> pwd_verify plain_context ''secret'' (pwd_hash plain_context ''t'' ''secret'') = Some True
   \<and> (1799::int) < 0 + minutes ACCESS_TOKEN_EXPIRE_MINUTES
   \<and> fst (register plain_context ''t'' alice_db (UserCreate ''bob'' ''secret''))
       = Inr (201, [(''message'', ''User registered successfully'')])
   \<and> (\<exists>tok. login plain_context ''k''
               (snd (register plain_context ''t'' alice_db (UserCreate ''bob'' ''secret''))) 0
               (OAuth2PasswordRequestForm ''bob'' ''secret'')
             = Inr \<lparr>access_token = tok, token_type = ''bearer''\<rparr>
          \<and> token_subject ''k'' 1799 tok = Inr ''bob''
          \<and> get_current_user ''k''
               (snd (register plain_context ''t'' alice_db (UserCreate ''bob'' ''secret''))) 1799 tok
             = Inr \<lparr>username = ''bob'', hashed_password = ''t$secret''\<rparr>)"
proof -
  have fresh: "''bob'' \<notin> dom alice_db"
    by (simp add: alice_db_def)
  have verifies: "pwd_verify plain_context ''secret'' (pwd_hash plain_context ''t'' ''secret'')
                    = Some True"
    by (simp add: plain_context_def)
  have early: "(1799::int) < 0 + minutes ACCESS_TOKEN_EXPIRE_MINUTES"
    by (simp add: minutes_def ACCESS_TOKEN_EXPIRE_MINUTES_def)
  have hashed: "pwd_hash plain_context ''t'' ''secret'' = ''t$secret''"
    by (simp add: plain_context_def)
  from register_then_login [OF fresh verifies early, of "''k''"] fresh verifies early
  show ?thesis by (simp add: hashed)
qed

section \<open>Token expiry\<close>

text \<open>
  With a non-zero \<open>expires_delta\<close> \<open>T\<close>, or with none and \<open>T\<close> the default of 30 minutes, the
  token carries the expiry \<open>t + T\<close>, decodes at every \<open>now < t + T\<close> and is \<open>Expired\<close> from
  \<open>t + T\<close> on.
\<close>

lemma create_access_token_expiry:
  assumes "expires_delta = Some T \<and> T \<noteq> 0
           \<or> expires_delta = None \<and> T = minutes ACCESS_TOKEN_EXPIRE_MINUTES"
  shows "create_access_token key t data expires_delta = Signed (data\<lparr>exp := Some (t + T)\<rparr>) key"
    and "now < t + T \<Longrightarrow>
           jwt_decode (create_access_token key t data expires_delta) key now
             = Inr (data\<lparr>exp := Some (t + T)\<rparr>)"
    and "t + T \<le> now \<Longrightarrow>
           jwt_decode (create_access_token key t data expires_delta) key now = Inl Expired"
  using assms by (auto simp: create_access_token_def jwt_encode_def jwt_decode_def)

text \<open>
  C7 at the time-to-live zero: \<open>create_access_token\<close> called at time 1000 with
  \<open>expires_delta = timedelta(0)\<close> issues a token with expiry 1000 + 30 minutes, not 1000, and
  the token still decodes at time 1000.
\<close>

theorem create_access_token_zero_ttl:
  "create_access_token ''k'' 1000 \<lparr>sub = Some ''u'', exp = None\<rparr> (Some 0)
     = Signed \<lparr>sub = Some ''u'', exp = Some 2800\<rparr> ''k''
   \<and> jwt_decode (create_access_token ''k'' 1000 \<lparr>sub = Some ''u'', exp = None\<rparr> (Some 0)) ''k'' 1000
     = Inr \<lparr>sub = Some ''u'', exp = Some 2800\<rparr>"
  by (simp add: create_access_token_def jwt_encode_def jwt_decode_def minutes_def
      ACCESS_TOKEN_EXPIRE_MINUTES_def)

section \<open>Storage keys and listing\<close>

text \<open>Between owners whose names contain no underscore the storage key is injective.\<close>

lemma underscore_split:
  assumes "CHR ''_'' \<notin> set o1" and "CHR ''_'' \<notin> set o2"
    and "o1 @ ''_'' @ n1 = o2 @ ''_'' @ n2"
  shows "o1 = o2 \<and> n1 = n2"
  using assms
proof (induction o1 arbitrary: o2)
  case Nil
  then show ?case by (cases o2) auto
next
  case (Cons c cs)
  then show ?case by (cases o2) auto
qed

lemma physical_key_injective:
  assumes "CHR ''_'' \<notin> set o1" and "CHR ''_'' \<notin> set o2"
    and "physical_key o1 n1 = physical_key o2 n2"
  shows "o1 = o2 \<and> n1 = n2"
  using assms unfolding physical_key_def by (rule underscore_split)

text \<open>
  What the listing does guarantee: every entry it returns comes from a name of the upload
  directory that is the caller's prefix followed by the entry's name, with the size of
  that file.
\<close>

lemma list_loop_entries:
  assumes "list_loop fs u names acc = Inr out"
  shows "\<exists>entries. out = acc @ entries
           \<and> (\<forall>e \<in> set entries. \<exists>fname \<in> set names.
                  prefix (u @ ''_'') fname \<and> name e = drop (length u + 1) fname
                  \<and> os_path_getsize fs (os_path_join UPLOAD_DIR fname) = Some (size_bytes e))"
  using assms
proof (induction names arbitrary: acc)
  case Nil
  then show ?case by simp
next
  case (Cons fname rest)
  show ?case
  proof (cases "prefix (u @ ''_'') fname")
    case False
    with Cons.prems have "list_loop fs u rest acc = Inr out" by simp
    from Cons.IH [OF this] show ?thesis by auto
  next
    case True
    with Cons.prems obtain n where n: "os_path_getsize fs (os_path_join UPLOAD_DIR fname) = Some n"
      and rec: "list_loop fs u rest
                  (acc @ [\<lparr>name = drop (length u + 1) fname, size_bytes = n\<rparr>]) = Inr out"
      by (auto split: option.splits)
    from Cons.IH [OF rec] obtain entries where
      out: "out = (acc @ [\<lparr>name = drop (length u + 1) fname, size_bytes = n\<rparr>]) @ entries"
      and all: "\<forall>e \<in> set entries. \<exists>f \<in> set rest.
                  prefix (u @ ''_'') f \<and> name e = drop (length u + 1) f
                  \<and> os_path_getsize fs (os_path_join UPLOAD_DIR f) = Some (size_bytes e)"
      by blast
    let ?es = "\<lparr>name = drop (length u + 1) fname, size_bytes = n\<rparr> # entries"
    have "out = acc @ ?es" using out by simp
    moreover have "\<forall>e \<in> set ?es. \<exists>f \<in> set (fname # rest).
                  prefix (u @ ''_'') f \<and> name e = drop (length u + 1) f
                  \<and> os_path_getsize fs (os_path_join UPLOAD_DIR f) = Some (size_bytes e)"
      using all True n by auto
    ultimately show ?thesis by blast
  qed
qed

lemma list_files_entries:
  assumes "list_files fs cu = Inr out" and "e \<in> set out"
  shows "\<exists>names fname. os_listdir fs UPLOAD_DIR = Some names \<and> fname \<in> set names
           \<and> fname = physical_key (username cu) (name e)"
proof -
  from assms obtain names where names: "os_listdir fs UPLOAD_DIR = Some names"
    and loop: "list_loop fs (username cu) names [] = Inr out"
    by (auto simp: list_files_def split: if_splits option.splits)
  from list_loop_entries [OF loop] assms(2) obtain fname where
    f: "fname \<in> set names" "prefix (username cu @ ''_'') fname"
       "name e = drop (length (username cu) + 1) fname"
    by auto
  from f(2) obtain r where "fname = (username cu @ ''_'') @ r"
    by (auto simp: prefix_def)
  with f(3) have "fname = physical_key (username cu) (name e)"
    by (simp add: physical_key_def)
  with names f(1) show ?thesis by blast
qed

text \<open>
  Two owners without underscores in their names, the same logical name: the listing of
  the first shows its own file only.
\<close>

lemma same_name_two_owners:
  "list_files
     (snd (upload_file
        (snd (upload_file fresh_fs (UploadFile ''x.txt'' ''hi'') \<lparr>username = ''alice'', hashed_password = ''s$pw''\<rparr>))
        (UploadFile ''x.txt'' ''hello'') \<lparr>username = ''bob'', hashed_password = ''s$pw''\<rparr>))
     \<lparr>username = ''alice'', hashed_password = ''s$pw''\<rparr>
   = Inr [\<lparr>name = ''x.txt'', size_bytes = 2\<rparr>]"
  by code_simp

text \<open>
  C2 at the owners \<open>a\<close> and \<open>a_b\<close>: the file \<open>b_x.txt\<close> of \<open>a\<close> and the file \<open>x.txt\<close> of
  \<open>a_b\<close> have the same storage key, and the upload of the second overwrites the first.
\<close>

theorem physical_key_collision:
  "''a'' \<noteq> ''a_b''
   \<and> physical_key ''a'' ''b_x.txt'' = physical_key ''a_b'' ''x.txt''
   \<and> map_of (files (snd (upload_file
         (snd (upload_file fresh_fs (UploadFile ''b_x.txt'' ''first'') user_a))
         (UploadFile ''x.txt'' ''hi'') user_a_b)))
       [''app'', ''uploaded_files'', ''a_b_x.txt''] = Some ''hi''"
  by code_simp

text \<open>
  C1 at the same owners: \<open>a_b\<close> can register beside \<open>a\<close>, and after \<open>a_b\<close> has uploaded
  \<open>x.txt\<close> (two bytes) into the empty upload directory, the listing of \<open>a\<close> shows that
  file, as \<open>b_x.txt\<close> with its size.
\<close>

theorem list_files_foreign_entry:
  "fst (register plain_context ''t'' [''a'' \<mapsto> user_a] (UserCreate ''a_b'' ''pw''))
     = Inr (201, [(''message'', ''User registered successfully'')])
   \<and> fst (upload_file fresh_fs (UploadFile ''x.txt'' ''hi'') user_a_b)
     = Inr [(''info'', ''File '' @ [CHR 0x27] @ ''x.txt'' @ [CHR 0x27] @ '' saved.''), (''user'', ''a_b'')]
   \<and> list_files (snd (upload_file fresh_fs (UploadFile ''x.txt'' ''hi'') user_a_b)) user_a
     = Inr [\<lparr>name = ''b_x.txt'', size_bytes = 2\<rparr>]"
  by code_simp

section \<open>Logical names with path separators\<close>




text \<open>
  Names that \<open>open\<close> refuses whatever the directory holds: one of 300 characters, and one
  with a null character.
\<close>

lemma upload_file_long_name:
  "upload_file fresh_fs (UploadFile (replicate 300 (CHR ''x'')) ''hi'') user_a
     = (Inl OSError, fresh_fs)"
  by code_simp

lemma upload_file_null_character:
  "upload_file fresh_fs (UploadFile [CHR ''x'', CHR 0x00] ''hi'') user_a
     = (Inl ValueError, fresh_fs)"
  by code_simp

text \<open>
  The owner's name is not inspected either: the user \<open>../a\<close> can register, and the upload
  of \<open>x\<close> by that user in the fresh file system is written to \<open>/app/a_x\<close>.
\<close>

lemma upload_file_owner_traversal:
  "fst (register plain_context ''t'' Map.empty (UserCreate ''../a'' ''pw''))
     = Inr (201, [(''message'', ''User registered successfully'')])
   \<and> map_of (files (snd (upload_file fresh_fs (UploadFile ''x'' ''hi'')
                           \<lparr>username = ''../a'', hashed_password = ''t$pw''\<rparr>)))
        [''app'', ''a_x''] = Some ''hi''"
  by code_simp




end
